theory Spec2Isabelle
  imports Complex_Main "HOL-Library.Sublist"
begin

section \<open>Python values and exceptions\<close>

text \<open>
  The values that \<^verbatim>\<open>r.json()\<close> can return: Python's \<^verbatim>\<open>None\<close>, \<^verbatim>\<open>bool\<close>,
  \<^verbatim>\<open>int\<close>, \<^verbatim>\<open>float\<close>, \<^verbatim>\<open>str\<close>, \<^verbatim>\<open>list\<close> and \<^verbatim>\<open>dict\<close> with string keys.
  A dict is an association list read with \<open>map_of\<close>. A float is the number it stands
  for, or one of the three values that are no number; only its equality with \<open>1\<close> is
  ever looked at.
\<close>

datatype pyfloat = Finite real | PosInf | NegInf | NaN

datatype pyval =
    PyNone
  | PyBool bool
  | PyInt int
  | PyFloat pyfloat
  | PyStr string
  | PyList "pyval list"
  | PyDict "(string \<times> pyval) list"

text \<open>
  The exceptions that can leave the plugin. \<open>RequestException\<close> stands for
  \<^verbatim>\<open>requests.exceptions.RequestException\<close> and all its subclasses; the string is
  \<^verbatim>\<open>str(e)\<close>. \<open>PluginError\<close> is \<^verbatim>\<open>certbot.errors.PluginError\<close>, which is not a
  \<open>RequestException\<close>.
\<close>

datatype exn =
    RequestException string
  | PluginError string
  | ConfigurationError string
  | ValueError string
  | KeyError string
  | TypeError
  | AttributeError

section \<open>The HTTP library as the plugin uses it\<close>

text \<open>
  One call \<^verbatim>\<open>requests.get(url, params=params)\<close>. The values of the \<^verbatim>\<open>params\<close> dict are
  Python strings or \<^verbatim>\<open>None\<close>.
\<close>

record request =
  req_url :: string
  req_params :: "(string \<times> string option) list"

text \<open>
  What \<^verbatim>\<open>r.json()\<close> does on a response: it returns the decoded value, or the body does
  not parse. An unparsable body raises \<^verbatim>\<open>requests.exceptions.JSONDecodeError\<close>, a
  \<open>RequestException\<close>, in requests 2.27 and later, and a plain \<^verbatim>\<open>ValueError\<close> before.
\<close>

datatype body =
    Decoded pyval
  | JSONDecodeError string
  | PlainValueError string

record response =
  status_code :: int
  reason :: string
  url :: string
  body :: body

datatype outcome = Raises string | Returns response

text \<open>
  The network answers a request given the requests made before it. The world holds what
  the plugin has done so far: the calls of \<^verbatim>\<open>requests.get\<close> and the messages given to
  \<^verbatim>\<open>logger.error\<close>.
\<close>

type_synonym network = "request list \<Rightarrow> request \<Rightarrow> outcome"

record world =
  sent :: "request list"
  logged :: "string list"

definition requests_get ::
  "network \<Rightarrow> string \<Rightarrow> (string \<times> string option) list \<Rightarrow> world \<Rightarrow> (exn + response) \<times> world" where
  "requests_get net u ps w =
     (let rq = \<lparr>req_url = u, req_params = ps\<rparr>;
          w' = w\<lparr>sent := sent w @ [rq]\<rparr>
      in case net (sent w) rq of
           Raises m \<Rightarrow> (Inl (RequestException m), w')
         | Returns r \<Rightarrow> (Inr r, w'))"

definition logger_error :: "string \<Rightarrow> world \<Rightarrow> world" where
  "logger_error m w = w\<lparr>logged := logged w @ [m]\<rparr>"

text \<open>\<^verbatim>\<open>str\<close> of an integer, for the status code in the message of an \<^verbatim>\<open>HTTPError\<close>.\<close>

definition digit_char :: "nat \<Rightarrow> char" where
  "digit_char n = ''0123456789'' ! (n mod 10)"

fun str_nat :: "nat \<Rightarrow> string" where
  "str_nat n = (if n < 10 then [digit_char n] else str_nat (n div 10) @ [digit_char (n mod 10)])"

declare str_nat.simps [simp del]

definition str_int :: "int \<Rightarrow> string" where
  "str_int i = (if i < 0 then CHR ''-'' # str_nat (nat (- i)) else str_nat (nat i))"

text \<open>
  \<^verbatim>\<open>Response.raise_for_status\<close>: an \<^verbatim>\<open>HTTPError\<close> (a \<open>RequestException\<close>) for a status
  from 400 to 599, and nothing otherwise.
\<close>

definition raise_for_status :: "response \<Rightarrow> exn + unit" where
  "raise_for_status r =
     (if 400 \<le> status_code r \<and> status_code r < 500 then
        Inl (RequestException
              (str_int (status_code r) @ '' Client Error: '' @ reason r @ '' for url: '' @ url r))
      else if 500 \<le> status_code r \<and> status_code r < 600 then
        Inl (RequestException
              (str_int (status_code r) @ '' Server Error: '' @ reason r @ '' for url: '' @ url r))
      else Inr ())"

definition json :: "response \<Rightarrow> exn + pyval" where
  "json r =
     (case body r of
        Decoded v \<Rightarrow> Inr v
      | JSONDecodeError m \<Rightarrow> Inl (RequestException m)
      | PlainValueError m \<Rightarrow> Inl (ValueError m))"

section \<open>The operators of the success check\<close>

text \<open>\<^verbatim>\<open>k in v\<close> for a string \<open>k\<close>: key of a dict, element of a list, substring of a string.\<close>

fun py_in :: "string \<Rightarrow> pyval \<Rightarrow> exn + bool" where
  "py_in k (PyDict kvs) = Inr (k \<in> fst ` set kvs)"
| "py_in k (PyList xs) = Inr (PyStr k \<in> set xs)"
| "py_in k (PyStr s) = Inr (sublist k s)"
| "py_in k _ = Inl TypeError"

text \<open>\<^verbatim>\<open>v[k]\<close> for a string \<open>k\<close>.\<close>

fun py_getitem :: "pyval \<Rightarrow> string \<Rightarrow> exn + pyval" where
  "py_getitem (PyDict kvs) k = (case map_of kvs k of None \<Rightarrow> Inl (KeyError k) | Some v \<Rightarrow> Inr v)"
| "py_getitem _ k = Inl TypeError"

text \<open>\<^verbatim>\<open>v != True\<close>: Python's \<^verbatim>\<open>True\<close> equals the numbers \<^verbatim>\<open>1\<close> and \<^verbatim>\<open>1.0\<close>.\<close>

fun py_ne_True :: "pyval \<Rightarrow> bool" where
  "py_ne_True (PyBool b) = (\<not> b)"
| "py_ne_True (PyInt i) = (i \<noteq> 1)"
| "py_ne_True (PyFloat x) = (x \<noteq> Finite 1)"
| "py_ne_True _ = True"

text \<open>
  \<^verbatim>\<open>'success' not in result or result['success'] != True\<close>; the right operand is
  evaluated only when the left one is false.
\<close>

definition not_successful :: "pyval \<Rightarrow> exn + bool" where
  "not_successful result =
     (case py_in ''success'' result of
        Inl e \<Rightarrow> Inl e
      | Inr has \<Rightarrow>
          if \<not> has then Inr True
          else (case py_getitem result ''success'' of
                  Inl e \<Rightarrow> Inl e
                | Inr v \<Rightarrow> Inr (py_ne_True v)))"

section \<open>The API client\<close>

definition ACCOUNT_URL :: string where
  "ACCOUNT_URL = ''https://www.do.de/account/letsencrypt/''"

definition API_URL :: string where
  "API_URL = ''https://www.do.de/api/letsencrypt''"

text \<open>
  \<^verbatim>\<open>_DomainOffensiveClient\<close>: its one attribute is the token given to the constructor,
  a string or \<^verbatim>\<open>None\<close>.
\<close>

record client =
  api_token :: "string option"

definition DomainOffensiveClient :: "string option \<Rightarrow> client" where
  "DomainOffensiveClient tok = \<lparr>api_token = tok\<rparr>"

text \<open>The body of the \<^verbatim>\<open>try\<close> block of \<^verbatim>\<open>add_txt_record\<close>.\<close>

definition add_try ::
  "network \<Rightarrow> (string \<times> string option) list \<Rightarrow> world \<Rightarrow> (exn + unit) \<times> world" where
  "add_try net params w =
     (case requests_get net API_URL params w of
        (Inl e, w1) \<Rightarrow> (Inl e, w1)
      | (Inr r, w1) \<Rightarrow>
          (case raise_for_status r of
             Inl e \<Rightarrow> (Inl e, w1)
           | Inr _ \<Rightarrow>
               (case json r of
                  Inl e \<Rightarrow> (Inl e, w1)
                | Inr result \<Rightarrow>
                    (case not_successful result of
                       Inl e \<Rightarrow> (Inl e, w1)
                     | Inr True \<Rightarrow>
                         (Inl (PluginError ''Error adding TXT record: not successful''),
                          logger_error ''Encountered error adding TXT record: not successful'' w1)
                     | Inr False \<Rightarrow> (Inr (), w1)))))"

text \<open>The \<^verbatim>\<open>except requests.exceptions.RequestException\<close> clause of \<^verbatim>\<open>add_txt_record\<close>.\<close>

fun add_except :: "(exn + unit) \<times> world \<Rightarrow> (exn + unit) \<times> world" where
  "add_except (Inl (RequestException e), w) =
     (Inl (PluginError (''Error adding TXT record: '' @ e)),
      logger_error (''Encountered error adding TXT record: '' @ e) w)"
| "add_except (res, w) = (res, w)"

definition add_txt_record ::
  "network \<Rightarrow> client \<Rightarrow> string \<Rightarrow> string \<Rightarrow> string \<Rightarrow> world \<Rightarrow> (exn + unit) \<times> world" where
  "add_txt_record net self domain record_name record_content w =
     (let params = [(''token'', api_token self),
                    (''domain'', Some record_name),
                    (''value'', Some record_content)]
      in add_except (add_try net params w))"

text \<open>The body of the \<^verbatim>\<open>try\<close> block of \<^verbatim>\<open>del_txt_record\<close>.\<close>

definition del_try ::
  "network \<Rightarrow> (string \<times> string option) list \<Rightarrow> world \<Rightarrow> (exn + unit) \<times> world" where
  "del_try net params w =
     (case requests_get net API_URL params w of
        (Inl e, w1) \<Rightarrow> (Inl e, w1)
      | (Inr r, w1) \<Rightarrow>
          (case raise_for_status r of
             Inl e \<Rightarrow> (Inl e, w1)
           | Inr _ \<Rightarrow>
               (case json r of
                  Inl e \<Rightarrow> (Inl e, w1)
                | Inr result \<Rightarrow>
                    (case not_successful result of
                       Inl e \<Rightarrow> (Inl e, w1)
                     | Inr True \<Rightarrow>
                         (Inr (),
                          logger_error ''Encountered error deleting TXT record: not successful'' w1)
                     | Inr False \<Rightarrow> (Inr (), w1)))))"

text \<open>The \<^verbatim>\<open>except requests.exceptions.RequestException\<close> clause of \<^verbatim>\<open>del_txt_record\<close>.\<close>

fun del_except :: "(exn + unit) \<times> world \<Rightarrow> (exn + unit) \<times> world" where
  "del_except (Inl (RequestException e), w) =
     (Inr (), logger_error (''Encountered error deleting TXT record: '' @ e) w)"
| "del_except (res, w) = (res, w)"

definition del_txt_record ::
  "network \<Rightarrow> client \<Rightarrow> string \<Rightarrow> string \<Rightarrow> string \<Rightarrow> world \<Rightarrow> (exn + unit) \<times> world" where
  "del_txt_record net self domain record_name record_content w =
     (let params = [(''token'', api_token self),
                    (''domain'', Some record_name),
                    (''action'', Some ''delete'')]
      in del_except (del_try net params w))"

section \<open>The authenticator\<close>

text \<open>
  Modelled from the spec: the host's credentials object (\<^verbatim>\<open>_configure_credentials\<close> and
  the \<^verbatim>\<open>conf\<close> method of what it returns, both of \<^verbatim>\<open>certbot.plugins.dns_common\<close>),
  which is not part of this repository. The credentials file is a list of keys and values;
  \<open>conf\<close> looks a key up and gives \<^verbatim>\<open>None\<close> for a key that is absent.
\<close>

type_synonym creds = "(string \<times> string) list"

definition conf :: "creds \<Rightarrow> string \<Rightarrow> string option" where
  "conf cr var = map_of cr var"

text \<open>
  Modelled from the spec: \<^verbatim>\<open>_configure_credentials\<close> of the host. It is given the loaded
  credentials file and the required keys with their descriptions; the absence of a required
  key is a configuration error, and otherwise the credentials object is returned.
\<close>

definition configure_credentials :: "creds \<Rightarrow> (string \<times> string) list \<Rightarrow> exn + creds" where
  "configure_credentials file required =
     (case find (\<lambda>(k, d). conf file k = None) required of
        None \<Rightarrow> Inr file
      | Some (k, d) \<Rightarrow> Inl (ConfigurationError (k @ '': '' @ d)))"

record authenticator =
  credentials :: "creds option"

text \<open>\<^verbatim>\<open>Authenticator.__init__\<close>: no credentials are loaded yet.\<close>

definition Authenticator :: authenticator where
  "Authenticator = \<lparr>credentials = None\<rparr>"

text \<open>
  \<^verbatim>\<open>_setup_credentials\<close>, \<^verbatim>\<open>_get_do_client\<close>, \<^verbatim>\<open>_perform\<close> and \<^verbatim>\<open>_cleanup\<close>; a
  leading underscore is not an Isabelle name, so they are prefixed \<open>priv_\<close>. When
  \<^verbatim>\<open>_configure_credentials\<close> raises, the assignment to \<^verbatim>\<open>self.credentials\<close> does not
  happen. With no credentials loaded, \<^verbatim>\<open>self.credentials.conf\<close> is an attribute access
  on \<^verbatim>\<open>None\<close>.
\<close>

definition priv_setup_credentials :: "creds \<Rightarrow> authenticator \<Rightarrow> (exn + unit) \<times> authenticator" where
  "priv_setup_credentials file self =
     (case configure_credentials file
             [(''api-token'',
               ''API token for Domain-Offensive account, obtained from '' @ ACCOUNT_URL)] of
        Inl e \<Rightarrow> (Inl e, self)
      | Inr cr \<Rightarrow> (Inr (), self\<lparr>credentials := Some cr\<rparr>))"

definition priv_get_do_client :: "authenticator \<Rightarrow> exn + client" where
  "priv_get_do_client self =
     (case credentials self of
        None \<Rightarrow> Inl AttributeError
      | Some cr \<Rightarrow> Inr (DomainOffensiveClient (conf cr ''api-token'')))"

definition priv_perform ::
  "network \<Rightarrow> authenticator \<Rightarrow> string \<Rightarrow> string \<Rightarrow> string \<Rightarrow> world \<Rightarrow> (exn + unit) \<times> world" where
  "priv_perform net self domain validation_name validation w =
     (case priv_get_do_client self of
        Inl e \<Rightarrow> (Inl e, w)
      | Inr c \<Rightarrow> add_txt_record net c domain validation_name validation w)"

definition priv_cleanup ::
  "network \<Rightarrow> authenticator \<Rightarrow> string \<Rightarrow> string \<Rightarrow> string \<Rightarrow> world \<Rightarrow> (exn + unit) \<times> world" where
  "priv_cleanup net self domain validation_name validation w =
     (case priv_get_do_client self of
        Inl e \<Rightarrow> (Inl e, w)
      | Inr c \<Rightarrow> del_txt_record net c domain validation_name validation w)"

text \<open>
  Modelled from the spec: the host's \<^verbatim>\<open>perform\<close> callback for one challenge, which is
  not part of this repository. It acquires the credentials and then calls \<^verbatim>\<open>_perform\<close>;
  a failed acquisition ends it.
\<close>

definition perform ::
  "network \<Rightarrow> creds \<Rightarrow> authenticator \<Rightarrow> string \<Rightarrow> string \<Rightarrow> string \<Rightarrow> world
     \<Rightarrow> (exn + unit) \<times> authenticator \<times> world" where
  "perform net file self domain validation_name validation w =
     (case priv_setup_credentials file self of
        (Inl e, self') \<Rightarrow> (Inl e, self', w)
      | (Inr _, self') \<Rightarrow>
          (case priv_perform net self' domain validation_name validation w of
             (res, w') \<Rightarrow> (res, self', w')))"

section \<open>The requests sent and the value returned\<close>

lemma sent_requests_get:
  "sent (snd (requests_get net u ps w)) = sent w @ [\<lparr>req_url = u, req_params = ps\<rparr>]"
  by (simp add: requests_get_def Let_def split: outcome.split)

lemma fst_requests_get:
  "fst (requests_get net u ps w) =
     (case net (sent w) \<lparr>req_url = u, req_params = ps\<rparr> of
        Raises m \<Rightarrow> Inl (RequestException m)
      | Returns r \<Rightarrow> Inr r)"
  by (simp add: requests_get_def Let_def split: outcome.split)

lemma sent_logger_error: "sent (logger_error m w) = sent w"
  by (simp add: logger_error_def)

lemma sent_add_try:
  "sent (snd (add_try net ps w)) = sent w @ [\<lparr>req_url = API_URL, req_params = ps\<rparr>]"
  using sent_requests_get [of net API_URL ps w]
  by (auto simp: add_try_def sent_logger_error split: prod.splits sum.splits bool.splits)

lemma sent_add_except: "sent (snd (add_except x)) = sent (snd x)"
  by (cases x rule: add_except.cases) (simp_all add: sent_logger_error)

lemma sent_del_try:
  "sent (snd (del_try net ps w)) = sent w @ [\<lparr>req_url = API_URL, req_params = ps\<rparr>]"
  using sent_requests_get [of net API_URL ps w]
  by (auto simp: del_try_def sent_logger_error split: prod.splits sum.splits bool.splits)

lemma sent_del_except: "sent (snd (del_except x)) = sent (snd x)"
  by (cases x rule: del_except.cases) (simp_all add: sent_logger_error)

lemma sent_add_txt_record:
  "sent (snd (add_txt_record net c d n v w)) =
     sent w @ [\<lparr>req_url = API_URL,
                req_params = [(''token'', api_token c), (''domain'', Some n), (''value'', Some v)]\<rparr>]"
  by (simp add: add_txt_record_def sent_add_except sent_add_try)

lemma sent_del_txt_record:
  "sent (snd (del_txt_record net c d n v w)) =
     sent w @ [\<lparr>req_url = API_URL,
                req_params = [(''token'', api_token c), (''domain'', Some n),
                              (''action'', Some ''delete'')]\<rparr>]"
  by (simp add: del_txt_record_def sent_del_except sent_del_try)

text \<open>The value of the try block of add, from the outcome of the one request.\<close>

lemma fst_add_try:
  "fst (add_try net ps w) =
     (case net (sent w) \<lparr>req_url = API_URL, req_params = ps\<rparr> of
        Raises m \<Rightarrow> Inl (RequestException m)
      | Returns r \<Rightarrow>
          (case raise_for_status r of
             Inl e \<Rightarrow> Inl e
           | Inr _ \<Rightarrow>
               (case json r of
                  Inl e \<Rightarrow> Inl e
                | Inr result \<Rightarrow>
                    (case not_successful result of
                       Inl e \<Rightarrow> Inl e
                     | Inr b \<Rightarrow>
                         if b then Inl (PluginError ''Error adding TXT record: not successful'')
                         else Inr ()))))"
  using fst_requests_get [of net API_URL ps w]
  by (auto simp: add_try_def split: prod.splits sum.splits bool.splits outcome.splits)

lemma fst_del_try:
  "fst (del_try net ps w) =
     (case net (sent w) \<lparr>req_url = API_URL, req_params = ps\<rparr> of
        Raises m \<Rightarrow> Inl (RequestException m)
      | Returns r \<Rightarrow>
          (case raise_for_status r of
             Inl e \<Rightarrow> Inl e
           | Inr _ \<Rightarrow>
               (case json r of
                  Inl e \<Rightarrow> Inl e
                | Inr result \<Rightarrow>
                    (case not_successful result of
                       Inl e \<Rightarrow> Inl e
                     | Inr b \<Rightarrow> Inr ()))))"
  using fst_requests_get [of net API_URL ps w]
  by (auto simp: del_try_def split: prod.splits sum.splits bool.splits outcome.splits)

lemma fst_add_except:
  "fst (add_except x) =
     (case fst x of
        Inl (RequestException e) \<Rightarrow> Inl (PluginError (''Error adding TXT record: '' @ e))
      | res \<Rightarrow> res)"
  by (cases x rule: add_except.cases) simp_all

lemma fst_del_except:
  "fst (del_except x) =
     (case fst x of
        Inl (RequestException e) \<Rightarrow> Inr ()
      | res \<Rightarrow> res)"
  by (cases x rule: del_except.cases) simp_all

lemma raise_for_status_cases:
  "raise_for_status r = Inr () \<longleftrightarrow> \<not> (400 \<le> status_code r \<and> status_code r < 600)"
  "(\<exists>m. raise_for_status r = Inl (RequestException m)) \<longleftrightarrow> (400 \<le> status_code r \<and> status_code r < 600)"
  by (auto simp: raise_for_status_def)

lemma raise_for_status_exn:
  "raise_for_status r = Inl e \<Longrightarrow> \<exists>m. e = RequestException m"
  by (auto simp: raise_for_status_def split: if_splits)

lemma not_successful_dict:
  "not_successful (PyDict kvs) =
     Inr (case map_of kvs ''success'' of None \<Rightarrow> True | Some x \<Rightarrow> py_ne_True x)"
  apply (simp add: not_successful_def split: option.splits)
  by (metis domIff dom_map_of_conv_image_fst option.distinct(1))

lemma py_ne_True_iff:
  "\<not> py_ne_True x \<longleftrightarrow> x = PyBool True \<or> x = PyInt 1 \<or> x = PyFloat (Finite 1)"
  by (cases x) auto

lemma not_successful_False_iff:
  "not_successful v = Inr False \<longleftrightarrow>
     (\<exists>kvs x. v = PyDict kvs \<and> map_of kvs ''success'' = Some x \<and> \<not> py_ne_True x)"
proof (cases v)
  case (PyDict kvs)
  then show ?thesis by (auto simp: not_successful_dict split: option.splits)
qed (auto simp: not_successful_def split: sum.splits option.splits)

lemma not_successful_True_iff:
  "not_successful res = Inr True \<longleftrightarrow>
     (\<exists>kvs. res = PyDict kvs \<and> (\<forall>x. map_of kvs ''success'' = Some x \<longrightarrow> py_ne_True x)) \<or>
     (\<exists>xs. res = PyList xs \<and> PyStr ''success'' \<notin> set xs) \<or>
     (\<exists>s. res = PyStr s \<and> \<not> sublist ''success'' s)"
proof (cases res)
  case (PyDict kvs)
  then show ?thesis by (auto simp: not_successful_dict split: option.splits)
qed (auto simp: not_successful_def split: sum.splits option.splits)

lemma not_successful_exn:
  assumes "not_successful x = Inl e"
  shows "e = TypeError"
proof (cases x)
  case (PyDict kvs)
  then show ?thesis using assms by (simp add: not_successful_dict)
qed (use assms in \<open>auto simp: not_successful_def split: if_splits\<close>)

lemma json_exn:
  "json r = Inl e \<Longrightarrow> (\<exists>m. e = RequestException m) \<or> (\<exists>m. e = ValueError m)"
  by (auto simp: json_def split: body.splits)

lemma json_Inr_iff: "json r = Inr res \<longleftrightarrow> body r = Decoded res"
  by (auto simp: json_def split: body.splits)

lemma fst_add_txt_record:
  "fst (add_txt_record net c d n v w) =
     (case fst (add_try net [(''token'', api_token c), (''domain'', Some n), (''value'', Some v)] w) of
        Inl (RequestException e) \<Rightarrow> Inl (PluginError (''Error adding TXT record: '' @ e))
      | res \<Rightarrow> res)"
  by (simp add: add_txt_record_def fst_add_except)

lemma fst_del_txt_record:
  "fst (del_txt_record net c d n v w) =
     (case fst (del_try net [(''token'', api_token c), (''domain'', Some n),
                             (''action'', Some ''delete'')] w) of
        Inl (RequestException e) \<Rightarrow> Inr ()
      | res \<Rightarrow> res)"
  by (simp add: del_txt_record_def fst_del_except)

lemma priv_perform_loaded:
  "credentials self = Some cr \<Longrightarrow>
   priv_perform net self d n v w =
     add_txt_record net (DomainOffensiveClient (conf cr ''api-token'')) d n v w"
  by (simp add: priv_perform_def priv_get_do_client_def)

lemma priv_cleanup_loaded:
  "credentials self = Some cr \<Longrightarrow>
   priv_cleanup net self d n v w =
     del_txt_record net (DomainOffensiveClient (conf cr ''api-token'')) d n v w"
  by (simp add: priv_cleanup_def priv_get_do_client_def)

text \<open>The definitions that evaluate a call on a concrete network and world.\<close>

lemmas eval_defs =
  add_txt_record_def add_try_def del_txt_record_def del_try_def requests_get_def
  raise_for_status_def json_def not_successful_def logger_error_def DomainOffensiveClient_def
  priv_perform_def priv_cleanup_def priv_get_do_client_def conf_def Let_def
  str_int_def str_nat.simps digit_char_def

section \<open>Failures of the add operation\<close>

text \<open>
  C1, as the code has it. With credentials loaded, \<^verbatim>\<open>_perform\<close> does what
  \<open>add_txt_record\<close> does on a client that holds the loaded token, so an error of
  \<open>add_txt_record\<close> reaches the caller as it is. That error is a \<open>PluginError\<close> whose
  message is \<^verbatim>\<open>Error adding TXT record: \<close> followed by the cause, in each of these cases:
  \<^item> the request raises: the cause is the text of that exception;
  \<^item> the status is from 400 to 599: the cause is the text of the \<^verbatim>\<open>HTTPError\<close> of
    \<^verbatim>\<open>raise_for_status\<close>;
  \<^item> the status is another one and \<^verbatim>\<open>r.json()\<close> rejects the body with a
    \<open>RequestException\<close>: the cause is the text of that exception;
  \<^item> the status is another one and the body is a JSON object whose \<^verbatim>\<open>success\<close> entry is
    missing or does not equal \<^verbatim>\<open>True\<close>, or an array or a string in which \<^verbatim>\<open>success\<close>
    does not occur: the cause is \<^verbatim>\<open>not successful\<close>.
\<close>

theorem add_failure_raises_PluginError:
  assumes "credentials self = Some cr"
    and "net (sent w) \<lparr>req_url = API_URL,
                        req_params = [(''token'', conf cr ''api-token''), (''domain'', Some n),
                                      (''value'', Some v)]\<rparr> = out"
  shows "priv_perform net self d n v w =
           add_txt_record net (DomainOffensiveClient (conf cr ''api-token'')) d n v w \<and>
         (\<forall>m. out = Raises m \<longrightarrow>
            fst (priv_perform net self d n v w) =
              Inl (PluginError (''Error adding TXT record: '' @ m))) \<and>
         (\<forall>r. out = Returns r \<and> 400 \<le> status_code r \<and> status_code r < 600 \<longrightarrow>
            (\<exists>m. raise_for_status r = Inl (RequestException m) \<and>
                 fst (priv_perform net self d n v w) =
                   Inl (PluginError (''Error adding TXT record: '' @ m)))) \<and>
         (\<forall>r m. out = Returns r \<and> \<not> (400 \<le> status_code r \<and> status_code r < 600) \<and>
                body r = JSONDecodeError m \<longrightarrow>
            fst (priv_perform net self d n v w) =
              Inl (PluginError (''Error adding TXT record: '' @ m))) \<and>
         (\<forall>r res. out = Returns r \<and> \<not> (400 \<le> status_code r \<and> status_code r < 600) \<and>
                body r = Decoded res \<and>
                ((\<exists>kvs. res = PyDict kvs \<and>
                        (\<forall>x. map_of kvs ''success'' = Some x \<longrightarrow> py_ne_True x)) \<or>
                 (\<exists>xs. res = PyList xs \<and> PyStr ''success'' \<notin> set xs) \<or>
                 (\<exists>s. res = PyStr s \<and> \<not> sublist ''success'' s)) \<longrightarrow>
            fst (priv_perform net self d n v w) =
              Inl (PluginError ''Error adding TXT record: not successful''))"
proof -
  let ?c = "DomainOffensiveClient (conf cr ''api-token'')"
  have tok: "api_token ?c = conf cr ''api-token''"
    by (simp add: DomainOffensiveClient_def)
  note res = fst_add_txt_record [of net ?c d n v w, unfolded fst_add_try tok assms(2)]
  have pp: "priv_perform net self d n v w = add_txt_record net ?c d n v w"
    using priv_perform_loaded [OF assms(1)] by simp
  have 1: "fst (add_txt_record net ?c d n v w) =
             Inl (PluginError (''Error adding TXT record: '' @ m))" if "out = Raises m" for m
    using that by (simp add: res)
  have 2: "\<exists>m. raise_for_status r = Inl (RequestException m) \<and>
             fst (add_txt_record net ?c d n v w) =
               Inl (PluginError (''Error adding TXT record: '' @ m))"
    if ret: "out = Returns r" and st: "400 \<le> status_code r \<and> status_code r < 600" for r
  proof -
    from st have "\<exists>m. raise_for_status r = Inl (RequestException m)"
      using raise_for_status_cases(2) by blast
    with ret show ?thesis by (auto simp: res)
  qed
  have 3: "fst (add_txt_record net ?c d n v w) =
             Inl (PluginError (''Error adding TXT record: '' @ m))"
    if "out = Returns r" and "\<not> (400 \<le> status_code r \<and> status_code r < 600)"
      and "body r = JSONDecodeError m" for r m
  proof -
    have "raise_for_status r = Inr ()"
      using that(2) raise_for_status_cases(1) by blast
    with that show ?thesis by (simp add: res json_def)
  qed
  have 4: "fst (add_txt_record net ?c d n v w) =
             Inl (PluginError ''Error adding TXT record: not successful'')"
    if "out = Returns r" and "\<not> (400 \<le> status_code r \<and> status_code r < 600)"
      and "body r = Decoded res" and "not_successful res = Inr True" for r res
  proof -
    have "raise_for_status r = Inr ()"
      using that(2) raise_for_status_cases(1) by blast
    with that show ?thesis by (simp add: res json_def)
  qed
  show ?thesis
    unfolding pp using 1 2 3 4 [unfolded not_successful_True_iff] by blast
qed

text \<open>
  One input for each case: a timeout, a status 500, an unparsable body and
  \<^verbatim>\<open>{"success": false}\<close>, each through \<^verbatim>\<open>_perform\<close>.
\<close>

theorem add_failure_raises_PluginError_witness:
  "fst (priv_perform (\<lambda>h rq. Raises ''timed out'')
         \<lparr>credentials = Some [(''api-token'', ''token'')]\<rparr>
         ''example.com'' ''_acme-challenge.example.com'' ''abc123''
         \<lparr>sent = [], logged = []\<rparr>) =
     Inl (PluginError ''Error adding TXT record: timed out'') \<and>
   fst (priv_perform
         (\<lambda>h rq. Returns \<lparr>status_code = 500, reason = ''Internal Server Error'',
                            url = API_URL, body = JSONDecodeError ''Expecting value''\<rparr>)
         \<lparr>credentials = Some [(''api-token'', ''token'')]\<rparr>
         ''example.com'' ''_acme-challenge.example.com'' ''abc123''
         \<lparr>sent = [], logged = []\<rparr>) =
     Inl (PluginError (''Error adding TXT record: 500 Server Error: Internal Server Error for url: ''
                        @ API_URL)) \<and>
   fst (priv_perform
         (\<lambda>h rq. Returns \<lparr>status_code = 200, reason = ''OK'',
                            url = API_URL, body = JSONDecodeError ''Expecting value''\<rparr>)
         \<lparr>credentials = Some [(''api-token'', ''token'')]\<rparr>
         ''example.com'' ''_acme-challenge.example.com'' ''abc123''
         \<lparr>sent = [], logged = []\<rparr>) =
     Inl (PluginError ''Error adding TXT record: Expecting value'') \<and>
   fst (priv_perform
         (\<lambda>h rq. Returns \<lparr>status_code = 200, reason = ''OK'', url = API_URL,
                            body = Decoded (PyDict [(''success'', PyBool False)])\<rparr>)
         \<lparr>credentials = Some [(''api-token'', ''token'')]\<rparr>
         ''example.com'' ''_acme-challenge.example.com'' ''abc123''
         \<lparr>sent = [], logged = []\<rparr>) =
     Inl (PluginError ''Error adding TXT record: not successful'')"
proof -
  let ?self = "\<lparr>credentials = Some [(''api-token'', ''token'')]\<rparr>"
  let ?w = "\<lparr>sent = [], logged = []\<rparr>"
  let ?rq = "\<lparr>req_url = API_URL,
              req_params = [(''token'', conf [(''api-token'', ''token'')] ''api-token''),
                            (''domain'', Some ''_acme-challenge.example.com''),
                            (''value'', Some ''abc123'')]\<rparr>"
  let ?n1 = "\<lambda>(h :: request list) (rq :: request). Raises ''timed out''"
  let ?n2 = "\<lambda>(h :: request list) (rq :: request).
               Returns \<lparr>status_code = 500, reason = ''Internal Server Error'',
                        url = API_URL, body = JSONDecodeError ''Expecting value''\<rparr>"
  let ?n3 = "\<lambda>(h :: request list) (rq :: request).
               Returns \<lparr>status_code = 200, reason = ''OK'',
                        url = API_URL, body = JSONDecodeError ''Expecting value''\<rparr>"
  let ?n4 = "\<lambda>(h :: request list) (rq :: request).
               Returns \<lparr>status_code = 200, reason = ''OK'', url = API_URL,
                        body = Decoded (PyDict [(''success'', PyBool False)])\<rparr>"
  have c: "credentials ?self = Some [(''api-token'', ''token'')]" by simp
  have "fst (priv_perform ?n1 ?self ''example.com'' ''_acme-challenge.example.com'' ''abc123'' ?w) =
          Inl (PluginError ''Error adding TXT record: timed out'')"
    using add_failure_raises_PluginError [where net = ?n1 and w = ?w and d = "''example.com''"
        and n = "''_acme-challenge.example.com''" and v = "''abc123''",
        OF c refl]
    by (elim conjE) simp
  moreover
  have "fst (priv_perform ?n2 ?self ''example.com'' ''_acme-challenge.example.com'' ''abc123'' ?w) =
          Inl (PluginError (''Error adding TXT record: 500 Server Error: Internal Server Error for url: ''
                             @ API_URL))"
    using add_failure_raises_PluginError [where net = ?n2 and w = ?w and d = "''example.com''"
        and n = "''_acme-challenge.example.com''" and v = "''abc123''",
        OF c refl]
    by (elim conjE) (simp add: raise_for_status_def str_int_def str_nat.simps digit_char_def)
  moreover
  have "fst (priv_perform ?n3 ?self ''example.com'' ''_acme-challenge.example.com'' ''abc123'' ?w) =
          Inl (PluginError ''Error adding TXT record: Expecting value'')"
    using add_failure_raises_PluginError [where net = ?n3 and w = ?w and d = "''example.com''"
        and n = "''_acme-challenge.example.com''" and v = "''abc123''",
        OF c refl]
    by (elim conjE) simp
  moreover
  have "fst (priv_perform ?n4 ?self ''example.com'' ''_acme-challenge.example.com'' ''abc123'' ?w) =
          Inl (PluginError ''Error adding TXT record: not successful'')"
    using add_failure_raises_PluginError [where net = ?n4 and w = ?w and d = "''example.com''"
        and n = "''_acme-challenge.example.com''" and v = "''abc123''",
        OF c refl]
    by (elim conjE) simp
  ultimately show ?thesis by blast
qed

text \<open>
  The claim as the spec words it fails twice. A status 300 is not a 2xx status, and with a
  body \<^verbatim>\<open>{"success": true}\<close> the call returns without an error. A status 200 with the body
  \<^verbatim>\<open>0\<close>, which has no success indicator, ends in a \<^verbatim>\<open>TypeError\<close> and not in a
  \<open>PluginError\<close>.
\<close>

theorem add_txt_record_failure_counterexample:
  "fst (add_txt_record
         (\<lambda>h rq. Returns \<lparr>status_code = 300, reason = ''Multiple Choices'', url = API_URL,
                            body = Decoded (PyDict [(''success'', PyBool True)])\<rparr>)
         (DomainOffensiveClient (Some ''token''))
         ''example.com'' ''_acme-challenge.example.com'' ''abc123''
         \<lparr>sent = [], logged = []\<rparr>) = Inr () \<and>
   fst (add_txt_record
         (\<lambda>h rq. Returns \<lparr>status_code = 200, reason = ''OK'', url = API_URL,
                            body = Decoded (PyInt 0)\<rparr>)
         (DomainOffensiveClient (Some ''token''))
         ''example.com'' ''_acme-challenge.example.com'' ''abc123''
         \<lparr>sent = [], logged = []\<rparr>) = Inl TypeError"
  by (simp add: eval_defs)

section \<open>Failures of the delete operation\<close>

text \<open>
  C2 does not hold of the code. A response with status 200 whose body is the JSON value
  \<^verbatim>\<open>null\<close> makes \<^verbatim>\<open>'success' not in result\<close> raise a \<^verbatim>\<open>TypeError\<close>, which the
  \<^verbatim>\<open>except\<close> clause does not catch: \<open>del_txt_record\<close> raises it, and so does \<^verbatim>\<open>_cleanup\<close>.
\<close>

theorem del_txt_record_raises_on_null_body:
  "fst (del_txt_record
         (\<lambda>h rq. Returns \<lparr>status_code = 200, reason = ''OK'', url = API_URL,
                            body = Decoded PyNone\<rparr>)
         (DomainOffensiveClient (Some ''token''))
         ''example.com'' ''_acme-challenge.example.com'' ''abc123''
         \<lparr>sent = [], logged = []\<rparr>) = Inl TypeError \<and>
   fst (priv_cleanup
         (\<lambda>h rq. Returns \<lparr>status_code = 200, reason = ''OK'', url = API_URL,
                            body = Decoded PyNone\<rparr>)
         \<lparr>credentials = Some [(''api-token'', ''token'')]\<rparr>
         ''example.com'' ''_acme-challenge.example.com'' ''abc123''
         \<lparr>sent = [], logged = []\<rparr>) = Inl TypeError"
  by (simp add: eval_defs)

text \<open>
  Apart from that \<^verbatim>\<open>TypeError\<close>, and the \<^verbatim>\<open>ValueError\<close> of an unparsable body where
  \<^verbatim>\<open>r.json()\<close> raises one, \<open>del_txt_record\<close> returns normally.
\<close>

lemma del_txt_record_raises_only:
  "fst (del_txt_record net c d n v w) = Inr () \<or>
   fst (del_txt_record net c d n v w) = Inl TypeError \<or>
   (\<exists>r m. net (sent w) \<lparr>req_url = API_URL,
                           req_params = [(''token'', api_token c), (''domain'', Some n),
                                         (''action'', Some ''delete'')]\<rparr> = Returns r \<and>
          body r = PlainValueError m \<and>
          fst (del_txt_record net c d n v w) = Inl (ValueError m))"
  unfolding fst_del_txt_record fst_del_try
  by (auto simp: json_def split: outcome.splits sum.splits exn.splits body.splits
      dest: raise_for_status_exn not_successful_exn)

section \<open>The add request and its success\<close>

text \<open>
  C3, as the code has it. With a token that is a string, \<open>add_txt_record\<close> makes one call of
  \<^verbatim>\<open>requests.get\<close> on \<open>API_URL\<close> with the parameters \<^verbatim>\<open>token\<close>, \<^verbatim>\<open>domain\<close> (the record
  name) and \<^verbatim>\<open>value\<close> (the record content). It returns without an error exactly when the
  request returns a response whose status is not from 400 to 599 and whose body is a JSON
  object with a \<^verbatim>\<open>success\<close> entry equal to \<^verbatim>\<open>True\<close> in Python's sense: \<^verbatim>\<open>true\<close>,
  \<^verbatim>\<open>1\<close> or \<^verbatim>\<open>1.0\<close>.
\<close>

theorem add_txt_record_success_iff:
  "sent (snd (add_txt_record net (DomainOffensiveClient (Some token)) d n v w)) =
     sent w @ [\<lparr>req_url = API_URL,
                req_params = [(''token'', Some token), (''domain'', Some n), (''value'', Some v)]\<rparr>] \<and>
   (fst (add_txt_record net (DomainOffensiveClient (Some token)) d n v w) = Inr () \<longleftrightarrow>
      (\<exists>r kvs x.
          net (sent w) \<lparr>req_url = API_URL,
                        req_params = [(''token'', Some token), (''domain'', Some n),
                                      (''value'', Some v)]\<rparr> = Returns r \<and>
          \<not> (400 \<le> status_code r \<and> status_code r < 600) \<and>
          body r = Decoded (PyDict kvs) \<and>
          map_of kvs ''success'' = Some x \<and>
          (x = PyBool True \<or> x = PyInt 1 \<or> x = PyFloat (Finite 1))))"
proof -
  let ?c = "DomainOffensiveClient (Some token)"
  let ?rq = "\<lparr>req_url = API_URL,
              req_params = [(''token'', Some token), (''domain'', Some n), (''value'', Some v)]\<rparr>"
  have tok: "api_token ?c = Some token"
    by (simp add: DomainOffensiveClient_def)
  have "fst (add_txt_record net ?c d n v w) = Inr () \<longleftrightarrow>
          (\<exists>r. net (sent w) ?rq = Returns r \<and> raise_for_status r = Inr () \<and>
               (\<exists>res. json r = Inr res \<and> not_successful res = Inr False))"
    unfolding fst_add_txt_record fst_add_try tok
    by (auto split: outcome.splits sum.splits exn.splits if_splits)
  then show ?thesis
    by (simp add: sent_add_txt_record tok raise_for_status_cases not_successful_False_iff
        py_ne_True_iff json_Inr_iff) blast
qed

text \<open>A status 204 with \<^verbatim>\<open>{"success": true, "id": 7}\<close>: the call returns.\<close>

theorem add_txt_record_success_iff_witness:
  "fst (add_txt_record
         (\<lambda>h rq. Returns \<lparr>status_code = 204, reason = ''No Content'', url = API_URL,
                            body = Decoded (PyDict [(''success'', PyBool True),
                                                    (''id'', PyInt 7)])\<rparr>)
         (DomainOffensiveClient (Some ''token''))
         ''example.com'' ''_acme-challenge.example.com'' ''abc123''
         \<lparr>sent = [], logged = []\<rparr>) = Inr ()"
  using add_txt_record_success_iff
    [of "\<lambda>h rq. Returns \<lparr>status_code = 204, reason = ''No Content'', url = API_URL,
                            body = Decoded (PyDict [(''success'', PyBool True),
                                                    (''id'', PyInt 7)])\<rparr>"
        "''token''" "''example.com''" "''_acme-challenge.example.com''" "''abc123''"
        "\<lparr>sent = [], logged = []\<rparr>"]
  by simp

text \<open>
  The claim as the spec words it fails twice: the call returns without an error when the
  indicator is the number \<^verbatim>\<open>1\<close> and not \<^verbatim>\<open>true\<close>, and when the status is 300.
\<close>

theorem add_txt_record_success_counterexample:
  "fst (add_txt_record
         (\<lambda>h rq. Returns \<lparr>status_code = 200, reason = ''OK'', url = API_URL,
                            body = Decoded (PyDict [(''success'', PyInt 1)])\<rparr>)
         (DomainOffensiveClient (Some ''token''))
         ''example.com'' ''_acme-challenge.example.com'' ''abc123''
         \<lparr>sent = [], logged = []\<rparr>) = Inr () \<and>
   map_of [(''success'', PyInt 1)] ''success'' \<noteq> Some (PyBool True) \<and>
   fst (add_txt_record
         (\<lambda>h rq. Returns \<lparr>status_code = 300, reason = ''Multiple Choices'', url = API_URL,
                            body = Decoded (PyDict [(''success'', PyBool True)])\<rparr>)
         (DomainOffensiveClient (Some ''token''))
         ''example.org'' ''_acme-challenge.example.org'' ''xyz789''
         \<lparr>sent = [], logged = []\<rparr>) = Inr () \<and>
   status_code \<lparr>status_code = 300, reason = ''Multiple Choices'', url = API_URL,
                body = Decoded (PyDict [(''success'', PyBool True)])\<rparr> \<notin> {200..299}"
  by (simp add: eval_defs)

section \<open>The delete request\<close>

text \<open>
  C4. \<open>del_txt_record\<close> calls \<^verbatim>\<open>requests.get\<close> on the URL of the add request, and its
  parameters are those of the add request without \<^verbatim>\<open>value\<close> and with \<^verbatim>\<open>action\<close> set to
  \<^verbatim>\<open>delete\<close>. The record content has no part in what \<open>del_txt_record\<close> does.
\<close>

theorem del_txt_record_request:
  "sent (snd (del_txt_record net c d n v w)) =
     sent w @ [\<lparr>req_url = API_URL,
                req_params = [(''token'', api_token c), (''domain'', Some n),
                              (''action'', Some ''delete'')]\<rparr>] \<and>
   del_txt_record net c d n v w = del_txt_record net c d n v' w \<and>
   req_url (last (sent (snd (del_txt_record net c d n v w)))) =
     req_url (last (sent (snd (add_txt_record net c d n v w)))) \<and>
   map_of (req_params (last (sent (snd (del_txt_record net c d n v w))))) =
     (map_of (req_params (last (sent (snd (add_txt_record net c d n v w))))))
       (''value'' := None, ''action'' \<mapsto> Some ''delete'')"
  by (simp add: sent_add_txt_record sent_del_txt_record fun_eq_iff) (simp add: del_txt_record_def)

section \<open>A missing token\<close>

text \<open>
  C5. When the credentials file has no \<^verbatim>\<open>api-token\<close>, \<^verbatim>\<open>_setup_credentials\<close> fails with a
  configuration error and leaves the authenticator as it was, and the host's \<^verbatim>\<open>perform\<close>
  fails with it and leaves the world as it was: no request is sent. An authenticator that
  never had credentials sends no request from \<^verbatim>\<open>_perform\<close> or \<^verbatim>\<open>_cleanup\<close> either.
\<close>

theorem missing_api_token_no_request:
  assumes "conf file ''api-token'' = None"
  shows "\<exists>m. priv_setup_credentials file self = (Inl (ConfigurationError m), self) \<and>
             perform net file self d n v w = (Inl (ConfigurationError m), self, w) \<and>
             (credentials self = None \<longrightarrow>
                priv_perform net self d n v w = (Inl AttributeError, w) \<and>
                priv_cleanup net self d n v w = (Inl AttributeError, w))"
  using assms
  by (simp add: perform_def priv_setup_credentials_def configure_credentials_def
      priv_perform_def priv_cleanup_def priv_get_do_client_def)

theorem missing_api_token_no_request_witness:
  "sent (snd (snd (perform (\<lambda>h rq. Raises ''unreachable'') [(''api-user'', ''someone'')]
                     Authenticator ''example.com'' ''_acme-challenge.example.com'' ''abc123''
                     \<lparr>sent = [], logged = []\<rparr>))) = [] \<and>
   sent (snd (priv_cleanup (\<lambda>h rq. Raises ''unreachable'')
                     Authenticator ''example.com'' ''_acme-challenge.example.com'' ''abc123''
                     \<lparr>sent = [], logged = []\<rparr>)) = []"
proof -
  have 1: "conf [(''api-user'', ''someone'')] ''api-token'' = None"
    by (simp add: conf_def)
  have 2: "credentials Authenticator = None"
    by (simp add: Authenticator_def)
  from missing_api_token_no_request [OF 1, of Authenticator "\<lambda>h rq. Raises ''unreachable''"
      "''example.com''" "''_acme-challenge.example.com''" "''abc123''" "\<lparr>sent = [], logged = []\<rparr>"] 2
  show ?thesis by auto
qed

section \<open>The domain argument\<close>

text \<open>
  C6. The \<^verbatim>\<open>domain\<close> argument has no part in what \<open>add_txt_record\<close> does: the result and the
  world are the same for any two domains, and the parameters of the request are the token,
  the record name under \<^verbatim>\<open>domain\<close> and the record content under \<^verbatim>\<open>value\<close>.
\<close>

theorem add_txt_record_ignores_domain:
  "add_txt_record net c d n v w = add_txt_record net c d' n v w \<and>
   sent (snd (add_txt_record net c d n v w)) =
     sent w @ [\<lparr>req_url = API_URL,
                req_params = [(''token'', api_token c), (''domain'', Some n), (''value'', Some v)]\<rparr>]"
  by (simp add: sent_add_txt_record) (simp add: add_txt_record_def)

section \<open>The message of the error\<close>

text \<open>
  C7, as the code has it. \<open>add_txt_record\<close> raises a \<open>PluginError\<close> with a message
  exactly in these cases, and the message is \<^verbatim>\<open>Error adding TXT record: \<close> followed by
  the cause of that case: the text of the exception that the request raised; or the text of
  the \<^verbatim>\<open>HTTPError\<close> of \<^verbatim>\<open>raise_for_status\<close>; or, after a status that raises nothing,
  the text of the \<open>RequestException\<close> of \<^verbatim>\<open>r.json()\<close>; or, after a body that
  decodes, \<^verbatim>\<open>not successful\<close> when the success check fails. The domain has no part in
  what \<open>add_txt_record\<close> does.
\<close>

theorem add_txt_record_error_message:
  "(fst (add_txt_record net c d n v w) = Inl (PluginError msg) \<longleftrightarrow>
      (\<exists>m. net (sent w) \<lparr>req_url = API_URL,
                          req_params = [(''token'', api_token c), (''domain'', Some n),
                                        (''value'', Some v)]\<rparr> = Raises m \<and>
           msg = ''Error adding TXT record: '' @ m) \<or>
      (\<exists>r. net (sent w) \<lparr>req_url = API_URL,
                          req_params = [(''token'', api_token c), (''domain'', Some n),
                                        (''value'', Some v)]\<rparr> = Returns r \<and>
           ((\<exists>m. raise_for_status r = Inl (RequestException m) \<and>
                 msg = ''Error adding TXT record: '' @ m) \<or>
            (\<exists>m. raise_for_status r = Inr () \<and> json r = Inl (RequestException m) \<and>
                 msg = ''Error adding TXT record: '' @ m) \<or>
            (\<exists>res. raise_for_status r = Inr () \<and> json r = Inr res \<and>
                   not_successful res = Inr True \<and>
                   msg = ''Error adding TXT record: not successful'')))) \<and>
   add_txt_record net c d' n v w = add_txt_record net c d n v w"
proof -
  have "add_txt_record net c d' n v w = add_txt_record net c d n v w"
    by (simp add: add_txt_record_def)
  moreover have "fst (add_txt_record net c d n v w) = Inl (PluginError msg) \<longleftrightarrow>
      (\<exists>m. net (sent w) \<lparr>req_url = API_URL,
                          req_params = [(''token'', api_token c), (''domain'', Some n),
                                        (''value'', Some v)]\<rparr> = Raises m \<and>
           msg = ''Error adding TXT record: '' @ m) \<or>
      (\<exists>r. net (sent w) \<lparr>req_url = API_URL,
                          req_params = [(''token'', api_token c), (''domain'', Some n),
                                        (''value'', Some v)]\<rparr> = Returns r \<and>
           ((\<exists>m. raise_for_status r = Inl (RequestException m) \<and>
                 msg = ''Error adding TXT record: '' @ m) \<or>
            (\<exists>m. raise_for_status r = Inr () \<and> json r = Inl (RequestException m) \<and>
                 msg = ''Error adding TXT record: '' @ m) \<or>
            (\<exists>res. raise_for_status r = Inr () \<and> json r = Inr res \<and>
                   not_successful res = Inr True \<and>
                   msg = ''Error adding TXT record: not successful'')))"
    unfolding fst_add_txt_record fst_add_try
    by (auto split: outcome.splits sum.splits exn.splits if_splits
        dest: raise_for_status_exn not_successful_exn json_exn)
  ultimately show ?thesis by blast
qed

text \<open>A timeout and \<^verbatim>\<open>{"success": false}\<close>: each has the message of its cause.\<close>

theorem add_txt_record_error_message_witness:
  "fst (add_txt_record (\<lambda>h rq. Raises ''timed out'')
         (DomainOffensiveClient (Some ''token''))
         ''example.com'' ''_acme-challenge.example.com'' ''abc123''
         \<lparr>sent = [], logged = []\<rparr>) =
     Inl (PluginError ''Error adding TXT record: timed out'') \<and>
   fst (add_txt_record
         (\<lambda>h rq. Returns \<lparr>status_code = 200, reason = ''OK'', url = API_URL,
                            body = Decoded (PyDict [(''success'', PyBool False)])\<rparr>)
         (DomainOffensiveClient (Some ''token''))
         ''example.org'' ''_acme-challenge.example.com'' ''abc123''
         \<lparr>sent = [], logged = []\<rparr>) =
     Inl (PluginError ''Error adding TXT record: not successful'')"
proof -
  have "fst (add_txt_record (\<lambda>h rq. Raises ''timed out'')
         (DomainOffensiveClient (Some ''token''))
         ''example.com'' ''_acme-challenge.example.com'' ''abc123''
         \<lparr>sent = [], logged = []\<rparr>) =
     Inl (PluginError ''Error adding TXT record: timed out'')"
    using add_txt_record_error_message
      [where net = "\<lambda>h rq. Raises ''timed out''" and c = "DomainOffensiveClient (Some ''token'')"
        and d = "''example.com''" and n = "''_acme-challenge.example.com''" and v = "''abc123''"
        and w = "\<lparr>sent = [], logged = []\<rparr>"
        and msg = "''Error adding TXT record: timed out''"]
    by simp
  moreover
  have "fst (add_txt_record
         (\<lambda>h rq. Returns \<lparr>status_code = 200, reason = ''OK'', url = API_URL,
                            body = Decoded (PyDict [(''success'', PyBool False)])\<rparr>)
         (DomainOffensiveClient (Some ''token''))
         ''example.org'' ''_acme-challenge.example.com'' ''abc123''
         \<lparr>sent = [], logged = []\<rparr>) =
     Inl (PluginError ''Error adding TXT record: not successful'')"
    using add_txt_record_error_message
      [where net = "\<lambda>h rq. Returns \<lparr>status_code = 200, reason = ''OK'', url = API_URL,
                            body = Decoded (PyDict [(''success'', PyBool False)])\<rparr>"
        and c = "DomainOffensiveClient (Some ''token'')"
        and d = "''example.org''" and n = "''_acme-challenge.example.com''" and v = "''abc123''"
        and w = "\<lparr>sent = [], logged = []\<rparr>"
        and msg = "''Error adding TXT record: not successful''"]
    by (simp add: raise_for_status_def json_def not_successful_def)
  ultimately show ?thesis by blast
qed

text \<open>
  The claim as the spec words it fails on a response \<^verbatim>\<open>{"success": false}\<close>: the message
  is \<^verbatim>\<open>Error adding TXT record: not successful\<close>, in which the domain does not occur.
\<close>

theorem add_txt_record_message_counterexample:
  "fst (add_txt_record
         (\<lambda>h rq. Returns \<lparr>status_code = 200, reason = ''OK'', url = API_URL,
                            body = Decoded (PyDict [(''success'', PyBool False)])\<rparr>)
         (DomainOffensiveClient (Some ''token''))
         ''example.com'' ''_acme-challenge.example.com'' ''abc123''
         \<lparr>sent = [], logged = []\<rparr>) =
     Inl (PluginError ''Error adding TXT record: not successful'') \<and>
   \<not> sublist ''example.com'' ''Error adding TXT record: not successful''"
  apply (rule conjI)
   apply (simp add: eval_defs)
  apply code_simp
  done

section \<open>One request for each call\<close>


section \<open>A success indicator that is the number one\<close>

text \<open>
  C9. A response with status 200 and the body \<^verbatim>\<open>{"success": 1}\<close> is a success for
  \<open>add_txt_record\<close>, although \<^verbatim>\<open>1\<close> is not the boolean \<^verbatim>\<open>true\<close>.
\<close>

theorem success_indicator_one_accepted:
  "fst (add_txt_record
         (\<lambda>h rq. Returns \<lparr>status_code = 200, reason = ''OK'', url = API_URL,
                            body = Decoded (PyDict [(''success'', PyInt 1)])\<rparr>)
         (DomainOffensiveClient (Some ''token''))
         ''example.com'' ''_acme-challenge.example.com'' ''abc123''
         \<lparr>sent = [], logged = []\<rparr>) = Inr () \<and>
   PyInt 1 \<noteq> PyBool True"
  by (simp add: eval_defs)

section \<open>A client for each call\<close>

text \<open>
  C10. With credentials loaded, \<^verbatim>\<open>_get_do_client\<close> builds a client from their
  \<^verbatim>\<open>api-token\<close>, and a client is nothing but its token. \<^verbatim>\<open>_perform\<close> and \<^verbatim>\<open>_cleanup\<close> are
  \<open>add_txt_record\<close> and \<open>del_txt_record\<close> on such a client, in whatever world they are
  called; a \<^verbatim>\<open>_cleanup\<close> after a \<^verbatim>\<open>_perform\<close> sends the token of the credentials again.
\<close>

theorem fresh_client_per_call:
  assumes "credentials self = Some cr"
  shows "priv_get_do_client self = Inr (DomainOffensiveClient (conf cr ''api-token'')) \<and>
         (\<forall>c :: client. c = DomainOffensiveClient (api_token c)) \<and>
         priv_perform net self d n v w =
           add_txt_record net (DomainOffensiveClient (conf cr ''api-token'')) d n v w \<and>
         priv_cleanup net self d' n' v' w' =
           del_txt_record net (DomainOffensiveClient (conf cr ''api-token'')) d' n' v' w' \<and>
         sent (snd (priv_perform net self d n v w)) =
           sent w @ [\<lparr>req_url = API_URL,
                      req_params = [(''token'', conf cr ''api-token''), (''domain'', Some n),
                                    (''value'', Some v)]\<rparr>] \<and>
         sent (snd (priv_cleanup net self d' n' v' (snd (priv_perform net self d n v w)))) =
           sent w @ [\<lparr>req_url = API_URL,
                      req_params = [(''token'', conf cr ''api-token''), (''domain'', Some n),
                                    (''value'', Some v)]\<rparr>,
                    \<lparr>req_url = API_URL,
                      req_params = [(''token'', conf cr ''api-token''), (''domain'', Some n'),
                                    (''action'', Some ''delete'')]\<rparr>]"
  using assms
  by (simp add: priv_perform_loaded priv_cleanup_loaded sent_add_txt_record sent_del_txt_record)
     (simp add: priv_get_do_client_def DomainOffensiveClient_def)

theorem fresh_client_per_call_witness:
  "sent (snd (priv_cleanup (\<lambda>h rq. Raises ''timed out'')
                \<lparr>credentials = Some [(''api-token'', ''token'')]\<rparr>
                ''example.com'' ''_acme-challenge.example.com'' ''abc123''
                (snd (priv_perform (\<lambda>h rq. Raises ''timed out'')
                        \<lparr>credentials = Some [(''api-token'', ''token'')]\<rparr>
                        ''example.com'' ''_acme-challenge.example.com'' ''abc123''
                        \<lparr>sent = [], logged = []\<rparr>)))) =
     [\<lparr>req_url = API_URL,
       req_params = [(''token'', Some ''token''),
                     (''domain'', Some ''_acme-challenge.example.com''),
                     (''value'', Some ''abc123'')]\<rparr>,
      \<lparr>req_url = API_URL,
       req_params = [(''token'', Some ''token''),
                     (''domain'', Some ''_acme-challenge.example.com''),
                     (''action'', Some ''delete'')]\<rparr>]"
proof -
  have 1: "credentials \<lparr>credentials = Some [(''api-token'', ''token'')]\<rparr> =
             Some [(''api-token'', ''token'')]"
    by simp
  from fresh_client_per_call [OF 1, where net = "\<lambda>h rq. Raises ''timed out''"
      and d = "''example.com''" and n = "''_acme-challenge.example.com''" and v = "''abc123''"
      and w = "\<lparr>sent = [], logged = []\<rparr>" and d' = "''example.com''"
      and n' = "''_acme-challenge.example.com''" and v' = "''abc123''"
      and w' = "\<lparr>sent = [], logged = []\<rparr>"]
  have "sent (snd (priv_cleanup (\<lambda>h rq. Raises ''timed out'')
                \<lparr>credentials = Some [(''api-token'', ''token'')]\<rparr>
                ''example.com'' ''_acme-challenge.example.com'' ''abc123''
                (snd (priv_perform (\<lambda>h rq. Raises ''timed out'')
                        \<lparr>credentials = Some [(''api-token'', ''token'')]\<rparr>
                        ''example.com'' ''_acme-challenge.example.com'' ''abc123''
                        \<lparr>sent = [], logged = []\<rparr>)))) =
     sent \<lparr>sent = [], logged = []\<rparr> @
     [\<lparr>req_url = API_URL,
       req_params = [(''token'', conf [(''api-token'', ''token'')] ''api-token''),
                     (''domain'', Some ''_acme-challenge.example.com''),
                     (''value'', Some ''abc123'')]\<rparr>,
      \<lparr>req_url = API_URL,
       req_params = [(''token'', conf [(''api-token'', ''token'')] ''api-token''),
                     (''domain'', Some ''_acme-challenge.example.com''),
                     (''action'', Some ''delete'')]\<rparr>]"
    by (elim conjE)
  then show ?thesis by (simp add: conf_def)
qed

end
